theory Spec2Isabelle
  imports Main "HOL-Library.Word"
begin

section \<open>JavaScript strings\<close>

text \<open>
  A JavaScript string is a sequence of UTF-16 code units; \<open>value.length\<close> counts code
  units, so the list length is the source's \<open>length\<close>. String literals of the source
  that are plain ASCII are written through \<open>ascii\<close>.
\<close>

type_synonym jsstring = "16 word list"

definition ascii :: "string \<Rightarrow> jsstring" where
  "ascii cs = map (\<lambda>c. of_nat (of_char c)) cs"

text \<open>
  \<open>String.prototype.trim\<close> strips the ECMAScript WhiteSpace and LineTerminator code
  points from both ends: TAB, LF, VT, FF, CR, SPACE, NBSP, U+1680, U+2000 to U+200A,
  U+2028, U+2029, U+202F, U+205F, U+3000 and U+FEFF.
\<close>

definition is_js_whitespace :: "16 word \<Rightarrow> bool" where
  "is_js_whitespace c =
     (c \<in> set [0x0009, 0x000A, 0x000B, 0x000C, 0x000D, 0x0020, 0x00A0, 0x1680,
                0x2028, 0x2029, 0x202F, 0x205F, 0x3000, 0xFEFF]
      \<or> (0x2000 \<le> c \<and> c \<le> 0x200A))"

definition trim :: "jsstring \<Rightarrow> jsstring" where
  "trim s = rev (dropWhile is_js_whitespace (rev (dropWhile is_js_whitespace s)))"

text \<open>
  Truthiness of a value that is a string, \<open>null\<close> or \<open>undefined\<close>: only a non-empty
  string is truthy.
\<close>

fun truthy :: "jsstring option \<Rightarrow> bool" where
  "truthy None = False"
| "truthy (Some s) = (s \<noteq> [])"


section \<open>MessageInput\<close>

text \<open>
  The component state of \<open>MessageInput\<close>: the two \<open>useState\<close> cells \<open>message\<close> and
  \<open>isComposing\<close>. The prop \<open>disabled\<close> is an argument of the handlers, and the prop
  \<open>onSendMessage\<close> is modelled by the list of strings it was called with.
\<close>

record input_state =
  message :: jsstring
  isComposing :: bool

record key_event =
  key :: string
  shiftKey :: bool

text \<open>
  What a handler invocation leaves behind: the component state, the arguments of the calls
  of \<open>onSendMessage\<close> in order, and whether \<open>e.preventDefault()\<close> was called on the event.
\<close>

record handled =
  state_after :: input_state
  emitted :: "jsstring list"
  defaultPrevented :: bool

definition maxLength :: nat where
  "maxLength = 1000"

definition handleSubmit :: "bool \<Rightarrow> input_state \<Rightarrow> handled" where
  "handleSubmit disabled s =
     (if trim (message s) \<noteq> [] \<and> \<not> disabled \<and> \<not> isComposing s
      then \<lparr>state_after = s\<lparr>message := []\<rparr>, emitted = [trim (message s)],
            defaultPrevented = True\<rparr>
      else \<lparr>state_after = s, emitted = [], defaultPrevented = True\<rparr>)"

definition handleKeyDown :: "bool \<Rightarrow> key_event \<Rightarrow> input_state \<Rightarrow> handled" where
  "handleKeyDown disabled e s =
     (if key e = ''Enter'' \<and> \<not> shiftKey e
      then handleSubmit disabled s
      else \<lparr>state_after = s, emitted = [], defaultPrevented = False\<rparr>)"

definition handleCompositionStart :: "input_state \<Rightarrow> input_state" where
  "handleCompositionStart s = s\<lparr>isComposing := True\<rparr>"

definition handleCompositionEnd :: "input_state \<Rightarrow> input_state" where
  "handleCompositionEnd s = s\<lparr>isComposing := False\<rparr>"

definition handleChange :: "jsstring \<Rightarrow> input_state \<Rightarrow> input_state" where
  "handleChange v s = (if length v \<le> maxLength then s\<lparr>message := v\<rparr> else s)"

text \<open>The \<open>disabled\<close> attribute of the send button.\<close>

definition sendButton_disabled :: "bool \<Rightarrow> input_state \<Rightarrow> bool" where
  "sendButton_disabled disabled s =
     (disabled \<or> trim (message s) = [] \<or> isComposing s)"


section \<open>Messages and the chat service\<close>

text \<open>
  The objects of the timeline (fields \<open>message\<close>, \<open>timestamp\<close>, \<open>user_id\<close>,
  \<open>conversation_id\<close>, \<open>agent_workflow\<close>, \<open>source_agent_response\<close>, \<open>isError\<close>; prefix
  \<open>m_\<close>) and the body of a successful \<open>POST /chat\<close> answer (\<open>response.data\<close>; prefix
  \<open>r_\<close>). A field that may be missing is an option; a missing \<open>isError\<close> is falsy, so
  it is \<open>False\<close>.
\<close>

record workflow_step =
  agent :: jsstring
  decision :: "jsstring option"

record msg =
  m_message :: jsstring
  m_timestamp :: jsstring
  m_user_id :: jsstring
  m_conversation_id :: "jsstring option"
  m_agent_workflow :: "workflow_step list option"
  m_source_agent_response :: "jsstring option"
  m_isError :: bool

record chat_response =
  r_response :: jsstring
  r_timestamp :: jsstring
  r_conversation_id :: "jsstring option"
  r_agent_workflow :: "workflow_step list option"
  r_source_agent_response :: "jsstring option"

text \<open>
  A request that was dispatched and has not settled yet, with the variables its
  continuation closes over: the history fetch of a conversation, or the chat request of
  \<open>sendMessage\<close> with \<open>messageText\<close> and the \<open>conversationId\<close> of the render that sent it.
\<close>

datatype request =
    GetHistory jsstring
  | PostChat jsstring "jsstring option"

text \<open>The calls the components make, in the order they make them.\<close>

datatype effect =
    SetMessagesAppend msg
  | SetMessages "msg list"
  | SetLoading bool
  | AxiosGet jsstring
  | AxiosPost jsstring jsstring "jsstring option"
  | SetCurrentConversationId "jsstring option"
  | ConsoleError


section \<open>App and ChatInterface\<close>

text \<open>
  One state for the mounted tree: the \<open>useState\<close> cells of \<open>App\<close>
  (\<open>currentConversationId\<close>, \<open>userId\<close>), of \<open>ChatInterface\<close> (\<open>messages\<close>, \<open>loading\<close>) and of
  \<open>MessageInput\<close> (\<open>input\<close>), the requests in flight, and the trace of calls.
\<close>

record chat_state =
  currentConversationId :: "jsstring option"
  userId :: jsstring
  messages :: "msg list"
  loading :: bool
  input :: input_state
  inflight :: "request list"
  effects :: "effect list"

definition setMessages :: "msg list \<Rightarrow> chat_state \<Rightarrow> chat_state" where
  "setMessages ms s = s\<lparr>messages := ms, effects := effects s @ [SetMessages ms]\<rparr>"

text \<open>The functional update \<open>setMessages(prev => [...prev, m])\<close>.\<close>

definition setMessages_append :: "msg \<Rightarrow> chat_state \<Rightarrow> chat_state" where
  "setMessages_append m s =
     s\<lparr>messages := messages s @ [m], effects := effects s @ [SetMessagesAppend m]\<rparr>"

definition setLoading :: "bool \<Rightarrow> chat_state \<Rightarrow> chat_state" where
  "setLoading b s = s\<lparr>loading := b, effects := effects s @ [SetLoading b]\<rparr>"

definition setCurrentConversationId :: "jsstring option \<Rightarrow> chat_state \<Rightarrow> chat_state" where
  "setCurrentConversationId v s =
     s\<lparr>currentConversationId := v, effects := effects s @ [SetCurrentConversationId v]\<rparr>"

definition console_error :: "chat_state \<Rightarrow> chat_state" where
  "console_error s = s\<lparr>effects := effects s @ [ConsoleError]\<rparr>"

definition axios_get :: "jsstring \<Rightarrow> chat_state \<Rightarrow> chat_state" where
  "axios_get c s =
     s\<lparr>inflight := inflight s @ [GetHistory c], effects := effects s @ [AxiosGet c]\<rparr>"

definition axios_post :: "jsstring \<Rightarrow> jsstring option \<Rightarrow> chat_state \<Rightarrow> chat_state" where
  "axios_post messageText conv s =
     s\<lparr>inflight := inflight s @ [PostChat messageText conv],
       effects := effects s @ [AxiosPost messageText (userId s) conv]\<rparr>"

text \<open>
  \<open>App\<close> passes \<open>() => setCurrentConversationId(null)\<close> as \<open>onNewConversation\<close>: the
  argument it is called with is not used.
\<close>

definition onNewConversation :: "jsstring option \<Rightarrow> chat_state \<Rightarrow> chat_state" where
  "onNewConversation newId s = setCurrentConversationId None s"

text \<open>\<open>fetchConversationHistory\<close>: the part up to the \<open>await\<close>, and its two continuations.\<close>

definition fetchConversationHistory :: "jsstring \<Rightarrow> chat_state \<Rightarrow> chat_state" where
  "fetchConversationHistory c s = axios_get c s"

definition fetchConversationHistory_resolved :: "msg list option \<Rightarrow> chat_state \<Rightarrow> chat_state" where
  "fetchConversationHistory_resolved r s =
     setMessages (case r of Some ms \<Rightarrow> ms | None \<Rightarrow> []) s"

definition fetchConversationHistory_rejected :: "chat_state \<Rightarrow> chat_state" where
  "fetchConversationHistory_rejected s = setMessages [] (console_error s)"

text \<open>The effect with dependency \<open>[conversationId]\<close>.\<close>

definition useEffect_conversationId :: "chat_state \<Rightarrow> chat_state" where
  "useEffect_conversationId s =
     (case currentConversationId s of
        None \<Rightarrow> setMessages [] s
      | Some c \<Rightarrow> if c \<noteq> [] then fetchConversationHistory c s else setMessages [] s)"

text \<open>
  \<open>sendMessage\<close>: the part up to the \<open>await\<close> runs in the caller's turn; \<open>now\<close> is what
  \<open>new Date().toISOString()\<close> returns.
\<close>

definition userMessage :: "jsstring \<Rightarrow> jsstring \<Rightarrow> chat_state \<Rightarrow> msg" where
  "userMessage now messageText s =
     \<lparr>m_message = messageText, m_timestamp = now, m_user_id = userId s,
      m_conversation_id = currentConversationId s, m_agent_workflow = None,
      m_source_agent_response = None, m_isError = False\<rparr>"

definition sendMessage :: "jsstring \<Rightarrow> jsstring \<Rightarrow> chat_state \<Rightarrow> chat_state" where
  "sendMessage now messageText s =
     (if trim messageText = [] then s
      else axios_post messageText (currentConversationId s)
             (setLoading True (setMessages_append (userMessage now messageText s) s)))"

definition botMessage :: "jsstring option \<Rightarrow> chat_response \<Rightarrow> msg" where
  "botMessage conv r =
     \<lparr>m_message = r_response r, m_timestamp = r_timestamp r, m_user_id = ascii ''bot'',
      m_conversation_id = conv, m_agent_workflow = r_agent_workflow r,
      m_source_agent_response = r_source_agent_response r, m_isError = False\<rparr>"

definition errorMessage :: "jsstring \<Rightarrow> jsstring option \<Rightarrow> msg" where
  "errorMessage now conv =
     \<lparr>m_message =
        ascii ''Desculpe, ocorreu um erro ao processar sua mensagem. Tente novamente.'',
      m_timestamp = now, m_user_id = ascii ''bot'', m_conversation_id = conv,
      m_agent_workflow = None, m_source_agent_response = None, m_isError = True\<rparr>"

text \<open>The rest of the \<open>try\<close> block, then \<open>finally\<close>.\<close>

definition sendMessage_resolved :: "jsstring option \<Rightarrow> chat_response \<Rightarrow> chat_state \<Rightarrow> chat_state" where
  "sendMessage_resolved conv r s =
     setLoading False
       (let s1 = setMessages_append (botMessage conv r) s
        in if \<not> truthy conv \<and> truthy (r_conversation_id r)
           then onNewConversation (r_conversation_id r) s1 else s1)"

text \<open>The \<open>catch\<close> block, then \<open>finally\<close>.\<close>

definition sendMessage_rejected :: "jsstring \<Rightarrow> jsstring option \<Rightarrow> chat_state \<Rightarrow> chat_state" where
  "sendMessage_rejected now conv s =
     setLoading False (setMessages_append (errorMessage now conv) (console_error s))"

text \<open>
  The \<open>disabled\<close> prop \<open>ChatInterface\<close> renders \<open>MessageInput\<close> with: \<open>true\<close> in the
  welcome branch (\<open>!conversationId\<close>), \<open>loading\<close> otherwise.
\<close>

definition disabled_prop :: "chat_state \<Rightarrow> bool" where
  "disabled_prop s = (if truthy (currentConversationId s) then loading s else True)"


section \<open>Events\<close>

text \<open>
  JavaScript runs each handler and each continuation to completion, one at a time. An event
  is one such turn: a user action on a component, or the settlement of the request at
  position \<open>i\<close> of the requests in flight. The events that may create a message carry the
  clock reading \<open>now\<close>. Handlers are run whether or not the DOM element is disabled, so
  every guard that matters is the handler's own.
\<close>

datatype event =
    SelectConversation jsstring
  | Change jsstring
  | KeyDown key_event jsstring
  | ClickSend jsstring
  | CompositionStart
  | CompositionEnd
  | HistoryResolved nat "msg list option"
  | HistoryRejected nat
  | ChatResolved nat chat_response
  | ChatRejected nat jsstring

definition settle :: "nat \<Rightarrow> chat_state \<Rightarrow> chat_state" where
  "settle i s = s\<lparr>inflight := take i (inflight s) @ drop (Suc i) (inflight s)\<rparr>"

text \<open>
  A handler of \<open>MessageInput\<close> ran: \<open>onSendMessage\<close> is \<open>sendMessage\<close>, called with each
  emitted string, and the component keeps the state the handler left.
\<close>

definition deliver :: "jsstring \<Rightarrow> handled \<Rightarrow> chat_state \<Rightarrow> chat_state" where
  "deliver now h s = (fold (sendMessage now) (emitted h) s)\<lparr>input := state_after h\<rparr>"

fun handler :: "event \<Rightarrow> chat_state \<Rightarrow> chat_state" where
  "handler (SelectConversation c) s = setCurrentConversationId (Some c) s"
| "handler (Change v) s = s\<lparr>input := handleChange v (input s)\<rparr>"
| "handler (KeyDown e now) s = deliver now (handleKeyDown (disabled_prop s) e (input s)) s"
| "handler (ClickSend now) s = deliver now (handleSubmit (disabled_prop s) (input s)) s"
| "handler CompositionStart s = s\<lparr>input := handleCompositionStart (input s)\<rparr>"
| "handler CompositionEnd s = s\<lparr>input := handleCompositionEnd (input s)\<rparr>"
| "handler (HistoryResolved i r) s =
     (if i < length (inflight s)
      then (case inflight s ! i of
              GetHistory c \<Rightarrow> fetchConversationHistory_resolved r (settle i s)
            | PostChat t conv \<Rightarrow> s)
      else s)"
| "handler (HistoryRejected i) s =
     (if i < length (inflight s)
      then (case inflight s ! i of
              GetHistory c \<Rightarrow> fetchConversationHistory_rejected (settle i s)
            | PostChat t conv \<Rightarrow> s)
      else s)"
| "handler (ChatResolved i r) s =
     (if i < length (inflight s)
      then (case inflight s ! i of
              GetHistory c \<Rightarrow> s
            | PostChat t conv \<Rightarrow> sendMessage_resolved conv r (settle i s))
      else s)"
| "handler (ChatRejected i now) s =
     (if i < length (inflight s)
      then (case inflight s ! i of
              GetHistory c \<Rightarrow> s
            | PostChat t conv \<Rightarrow> sendMessage_rejected now conv (settle i s))
      else s)"

text \<open>
  After the turn React renders, and runs the effect when \<open>conversationId\<close> is not the
  value of the previous render.
\<close>

definition commit :: "chat_state \<Rightarrow> chat_state \<Rightarrow> chat_state" where
  "commit rendered s =
     (if currentConversationId s = currentConversationId rendered then s
      else useEffect_conversationId s)"

definition step :: "event \<Rightarrow> chat_state \<Rightarrow> chat_state" where
  "step e s = commit s (handler e s)"

definition run :: "event list \<Rightarrow> chat_state \<Rightarrow> chat_state" where
  "run evs s = fold step evs s"

text \<open>Mounting: the initial values of the \<open>useState\<close> cells, then the effect's first run.\<close>

definition mount :: "jsstring \<Rightarrow> chat_state" where
  "mount uid =
     useEffect_conversationId
       \<lparr>currentConversationId = None, userId = uid, messages = [], loading = False,
        input = \<lparr>message = [], isComposing = False\<rparr>, inflight = [], effects = []\<rparr>"

text \<open>The chat requests in flight.\<close>

fun is_post :: "request \<Rightarrow> bool" where
  "is_post (PostChat t conv) = True"
| "is_post (GetHistory c) = False"

definition outstanding_sends :: "chat_state \<Rightarrow> nat" where
  "outstanding_sends s = length (filter is_post (inflight s))"


section \<open>Rendering the timeline\<close>

text \<open>
  The elements \<open>renderAgentWorkflow\<close> returns: an \<open>AgentWorkflow\<close> with the text of its
  \<open>WorkflowTitle\<close> and its \<open>WorkflowStep\<close>s, each with its key, the text of its \<open>StepAgent\<close>
  and, when it is rendered, the text of its \<open>StepDecision\<close>. \<open>None\<close> is \<open>null\<close>.
\<close>

datatype step_view = WorkflowStep nat jsstring "jsstring option"

datatype workflow_view = AgentWorkflow jsstring "step_view list"

fun stepAgent :: "step_view \<Rightarrow> jsstring" where
  "stepAgent (WorkflowStep k a d) = a"

fun stepDecision :: "step_view \<Rightarrow> jsstring option" where
  "stepDecision (WorkflowStep k a d) = d"

fun workflowSteps :: "workflow_view \<Rightarrow> step_view list" where
  "workflowSteps (AgentWorkflow t steps) = steps"

definition arrow :: jsstring where
  "arrow = [0x2192, 0x0020]"

definition render_step :: "nat \<times> workflow_step \<Rightarrow> step_view" where
  "render_step p =
     WorkflowStep (fst p) (agent (snd p))
       (case decision (snd p) of
          None \<Rightarrow> None
        | Some d \<Rightarrow> if d \<noteq> [] then Some (arrow @ d) else None)"

definition renderAgentWorkflow :: "workflow_step list option \<Rightarrow> workflow_view option" where
  "renderAgentWorkflow workflow =
     (case workflow of
        None \<Rightarrow> None
      | Some w \<Rightarrow>
          if length w = 0 then None
          else Some (AgentWorkflow (ascii ''Fluxo de Processamento:'')
                       (map render_step (enumerate 0 w))))"

text \<open>
  One entry of the message list: the props of \<open>Message\<close>, and what
  \<open>message.agent_workflow && renderAgentWorkflow(message.agent_workflow)\<close> renders.
\<close>

record entry_view =
  v_message :: jsstring
  v_isUser :: bool
  v_timestamp :: jsstring
  v_isError :: bool
  v_workflow :: "workflow_view option"

definition render_entry :: "jsstring \<Rightarrow> msg \<Rightarrow> entry_view" where
  "render_entry uid m =
     \<lparr>v_message = m_message m, v_isUser = (m_user_id m = uid),
      v_timestamp = m_timestamp m, v_isError = m_isError m,
      v_workflow = (case m_agent_workflow m of
                      None \<Rightarrow> None
                    | Some w \<Rightarrow> renderAgentWorkflow (Some w))\<rparr>"


section \<open>The invariant of the send cycle\<close>

text \<open>
  The number of chat requests in flight is one while \<open>loading\<close> is set and zero while it
  is not.
\<close>

definition send_inv :: "chat_state \<Rightarrow> bool" where
  "send_inv s = (outstanding_sends s = (if loading s then 1 else 0))"




section \<open>Example data\<close>

abbreviation user1 :: jsstring where
  "user1 \<equiv> ascii ''user-1''"

abbreviation convA :: jsstring where
  "convA \<equiv> ascii ''conv-a''"

abbreviation convB :: jsstring where
  "convB \<equiv> ascii ''conv-b''"

abbreviation enterKey :: key_event where
  "enterKey \<equiv> \<lparr>key = ''Enter'', shiftKey = False\<rparr>"

abbreviation question :: jsstring where
  "question \<equiv> ascii ''Qual a taxa da maquininha?''"

abbreviation reply9 :: chat_response where
  "reply9 \<equiv>
     \<lparr>r_response = [0x4F, 0x6C, 0xE1, 0x21], r_timestamp = ascii ''t2'',
      r_conversation_id = Some (ascii ''conv-9''),
      r_agent_workflow =
        Some [\<lparr>agent = ascii ''RouterAgent'', decision = Some (ascii ''KnowledgeAgent'')\<rparr>],
      r_source_agent_response = None\<rparr>"

abbreviation stored :: msg where
  "stored \<equiv>
     \<lparr>m_message = ascii ''oi'', m_timestamp = ascii ''t0'', m_user_id = user1,
      m_conversation_id = Some convA, m_agent_workflow = None,
      m_source_agent_response = None, m_isError = False\<rparr>"


section \<open>Properties of MessageInput\<close>

text \<open>
  Claim C7. For every edit event on the input draft: if the resulting text has length at
  most 1000 it replaces the draft verbatim; if its length exceeds 1000 the draft is left
  completely unchanged (no truncation, no error). Nothing else of the component state is
  touched in either case.
\<close>

theorem handleChange_cap:
  "(length v \<le> 1000 \<longrightarrow> handleChange v s = s\<lparr>message := v\<rparr>) \<and>
   (1000 < length v \<longrightarrow> handleChange v s = s)"
  by (simp add: handleChange_def maxLength_def)

theorem handleChange_cap_witness:
  "length (ascii ''oi'') \<le> 1000 \<and>
   handleChange (ascii ''oi'') \<lparr>message = ascii ''o'', isComposing = False\<rparr>
     = \<lparr>message = ascii ''oi'', isComposing = False\<rparr> \<and>
   1000 < length (replicate 1001 (0x61 :: 16 word)) \<and>
   handleChange (replicate 1001 0x61) \<lparr>message = ascii ''o'', isComposing = False\<rparr>
     = \<lparr>message = ascii ''o'', isComposing = False\<rparr>"
  using handleChange_cap [of "ascii ''oi''" "\<lparr>message = ascii ''o'', isComposing = False\<rparr>"]
    handleChange_cap [of "replicate 1001 0x61" "\<lparr>message = ascii ''o'', isComposing = False\<rparr>"]
  by (simp add: ascii_def)

text \<open>
  Claim C6. For every draft state with trimmed text non-empty, composing false and
  disabled false, an Enter keypress without Shift (or the explicit send action, which runs
  \<open>handleSubmit\<close>) produces exactly one emission, of the trimmed draft string, and clears
  the draft to empty; if any one of these guard conditions fails, the trigger produces
  zero emissions and the draft is not cleared (the component state is what it was).
\<close>

theorem submit_guards:
  assumes "key e = ''Enter''" and "\<not> shiftKey e"
  shows "(trim (message s) \<noteq> [] \<and> \<not> isComposing s \<and> \<not> disabled \<longrightarrow>
            emitted (handleKeyDown disabled e s) = [trim (message s)] \<and>
            state_after (handleKeyDown disabled e s) = s\<lparr>message := []\<rparr> \<and>
            emitted (handleSubmit disabled s) = [trim (message s)] \<and>
            state_after (handleSubmit disabled s) = s\<lparr>message := []\<rparr>) \<and>
         (trim (message s) = [] \<or> isComposing s \<or> disabled \<longrightarrow>
            emitted (handleKeyDown disabled e s) = [] \<and>
            state_after (handleKeyDown disabled e s) = s \<and>
            emitted (handleSubmit disabled s) = [] \<and>
            state_after (handleSubmit disabled s) = s)"
  using assms by (auto simp add: handleKeyDown_def handleSubmit_def)

theorem submit_guards_witness:
  "key \<lparr>key = ''Enter'', shiftKey = False\<rparr> = ''Enter'' \<and>
   \<not> shiftKey \<lparr>key = ''Enter'', shiftKey = False\<rparr> \<and>
   trim (ascii '' oi '') \<noteq> [] \<and>
   emitted (handleKeyDown False \<lparr>key = ''Enter'', shiftKey = False\<rparr>
              \<lparr>message = ascii '' oi '', isComposing = False\<rparr>) = [ascii ''oi''] \<and>
   message (state_after (handleKeyDown False \<lparr>key = ''Enter'', shiftKey = False\<rparr>
              \<lparr>message = ascii '' oi '', isComposing = False\<rparr>)) = [] \<and>
   emitted (handleKeyDown True \<lparr>key = ''Enter'', shiftKey = False\<rparr>
              \<lparr>message = ascii '' oi '', isComposing = False\<rparr>) = [] \<and>
   state_after (handleKeyDown True \<lparr>key = ''Enter'', shiftKey = False\<rparr>
              \<lparr>message = ascii '' oi '', isComposing = False\<rparr>)
     = \<lparr>message = ascii '' oi '', isComposing = False\<rparr>"
proof -
  have t: "trim (ascii '' oi '') = ascii ''oi''"
    by (simp add: trim_def ascii_def is_js_whitespace_def)
  show ?thesis
    using submit_guards [of "\<lparr>key = ''Enter'', shiftKey = False\<rparr>"
                           "\<lparr>message = ascii '' oi '', isComposing = False\<rparr>" False]
      submit_guards [of "\<lparr>key = ''Enter'', shiftKey = False\<rparr>"
                           "\<lparr>message = ascii '' oi '', isComposing = False\<rparr>" True]
    by (simp add: t) (simp add: ascii_def)
qed

text \<open>
  Claim C10, as stated: Enter without Shift never modifies the draft, whether or not it
  submits. It fails when the keypress submits: with the draft \<open>oi\<close>, not composing and not
  disabled, the draft after the keypress is not the draft before it.
\<close>

theorem enter_modifies_draft_counterexample:
  "message (state_after (handleKeyDown False \<lparr>key = ''Enter'', shiftKey = False\<rparr>
              \<lparr>message = ascii ''oi'', isComposing = False\<rparr>))
   \<noteq> message \<lparr>message = ascii ''oi'', isComposing = False\<rparr>"
  by (simp add: handleKeyDown_def handleSubmit_def trim_def ascii_def is_js_whitespace_def)

text \<open>
  Claim C10, amended. For every Enter keypress without Shift the default key action is
  suppressed unconditionally (\<open>preventDefault\<close> is called whatever the guards say), so no
  line break is inserted; when a submission guard fails (draft empty after trim, composing
  true, or disabled true) the draft is left unchanged, and when the keypress submits the
  draft is cleared to empty.
\<close>

theorem enter_prevents_default:
  assumes "key e = ''Enter''" and "\<not> shiftKey e"
  shows "defaultPrevented (handleKeyDown disabled e s) \<and>
         (trim (message s) = [] \<or> isComposing s \<or> disabled \<longrightarrow>
            state_after (handleKeyDown disabled e s) = s) \<and>
         (trim (message s) \<noteq> [] \<and> \<not> isComposing s \<and> \<not> disabled \<longrightarrow>
            state_after (handleKeyDown disabled e s) = s\<lparr>message := []\<rparr>)"
  using assms by (auto simp add: handleKeyDown_def handleSubmit_def)

theorem enter_prevents_default_witness:
  "key \<lparr>key = ''Enter'', shiftKey = False\<rparr> = ''Enter'' \<and>
   \<not> shiftKey \<lparr>key = ''Enter'', shiftKey = False\<rparr> \<and>
   defaultPrevented (handleKeyDown False \<lparr>key = ''Enter'', shiftKey = False\<rparr>
                       \<lparr>message = ascii ''oi'', isComposing = True\<rparr>) \<and>
   isComposing \<lparr>message = ascii ''oi'', isComposing = True\<rparr> \<and>
   state_after (handleKeyDown False \<lparr>key = ''Enter'', shiftKey = False\<rparr>
                  \<lparr>message = ascii ''oi'', isComposing = True\<rparr>)
     = \<lparr>message = ascii ''oi'', isComposing = True\<rparr> \<and>
   trim (ascii ''oi'') \<noteq> [] \<and>
   state_after (handleKeyDown False \<lparr>key = ''Enter'', shiftKey = False\<rparr>
                  \<lparr>message = ascii ''oi'', isComposing = False\<rparr>)
     = \<lparr>message = [], isComposing = False\<rparr>"
proof -
  have t: "trim (ascii ''oi'') = ascii ''oi''"
    by (simp add: trim_def ascii_def is_js_whitespace_def)
  show ?thesis
    using enter_prevents_default [of "\<lparr>key = ''Enter'', shiftKey = False\<rparr>" False
                                    "\<lparr>message = ascii ''oi'', isComposing = True\<rparr>"]
      enter_prevents_default [of "\<lparr>key = ''Enter'', shiftKey = False\<rparr>" False
                                    "\<lparr>message = ascii ''oi'', isComposing = False\<rparr>"]
    by (simp add: t) (simp add: ascii_def)
qed


section \<open>Evaluation and the send invariant\<close>

lemmas setters =
  setMessages_def setMessages_append_def setLoading_def setCurrentConversationId_def
  console_error_def axios_get_def axios_post_def onNewConversation_def
  fetchConversationHistory_def

lemmas handlers =
  sendMessage_def sendMessage_resolved_def sendMessage_rejected_def
  fetchConversationHistory_resolved_def fetchConversationHistory_rejected_def
  useEffect_conversationId_def userMessage_def botMessage_def errorMessage_def

lemmas eval_simps =
  run_def step_def commit_def mount_def deliver_def settle_def
  handleKeyDown_def handleSubmit_def handleChange_def maxLength_def disabled_prop_def
  trim_def is_js_whitespace_def ascii_def handlers setters outstanding_sends_def

lemma trim_question: "trim question \<noteq> []"
  by (simp add: trim_def ascii_def is_js_whitespace_def)

lemma filter_remove_nth:
  assumes "i < length xs"
  shows "length (filter P (take i xs @ drop (Suc i) xs)) =
         length (filter P xs) - (if P (xs ! i) then 1 else 0)"
proof -
  have "xs = take i xs @ xs ! i # drop (Suc i) xs"
    using assms by (rule id_take_nth_drop)
  then have "filter P xs = filter P (take i xs) @ filter P [xs ! i] @ filter P (drop (Suc i) xs)"
    by (metis append_Cons append_Nil filter_append)
  then show ?thesis by simp
qed

lemma useEffect_keeps:
  "outstanding_sends (useEffect_conversationId s) = outstanding_sends s"
  "loading (useEffect_conversationId s) = loading s"
  by (simp_all add: useEffect_conversationId_def outstanding_sends_def setters
        split: option.splits)

lemma commit_keeps:
  "outstanding_sends (commit r s) = outstanding_sends s"
  "loading (commit r s) = loading s"
  by (simp_all add: commit_def useEffect_keeps)

lemma sendMessage_inv:
  assumes "send_inv s" and "\<not> loading s"
  shows "send_inv (sendMessage now t s)"
  using assms by (simp add: send_inv_def sendMessage_def outstanding_sends_def setters)

lemma deliver_inv:
  assumes "send_inv s" and "loading s \<longrightarrow> emitted h = []" and "length (emitted h) \<le> 1"
  shows "send_inv (deliver now h s)"
proof (cases "emitted h")
  case Nil
  then show ?thesis using assms by (simp add: deliver_def send_inv_def outstanding_sends_def)
next
  case (Cons t ts)
  with assms(3) have "ts = []" by simp
  with Cons assms(2) have nl: "\<not> loading s" by auto
  have "send_inv (sendMessage now t s)" using assms(1) nl by (rule sendMessage_inv)
  then show ?thesis using Cons \<open>ts = []\<close>
    by (simp add: deliver_def send_inv_def outstanding_sends_def)
qed

lemma handleSubmit_emitted:
  "length (emitted (handleSubmit d i)) \<le> 1" "d \<Longrightarrow> emitted (handleSubmit d i) = []"
  by (simp_all add: handleSubmit_def)

lemma handleKeyDown_emitted:
  "length (emitted (handleKeyDown d e i)) \<le> 1" "d \<Longrightarrow> emitted (handleKeyDown d e i) = []"
  by (simp_all add: handleKeyDown_def handleSubmit_def)

lemma loading_disabled: "loading s \<Longrightarrow> disabled_prop s"
  by (simp add: disabled_prop_def)

lemma settle_post:
  assumes "i < length (inflight s)" and "inflight s ! i = PostChat t conv" and "send_inv s"
  shows "outstanding_sends (settle i s) = 0"
proof -
  have "is_post (inflight s ! i)" using assms(2) by simp
  then have "is_post (inflight s ! i) \<and> inflight s ! i \<in> set (inflight s)"
    using assms(1) by simp
  then have "0 < outstanding_sends s"
    by (auto simp add: outstanding_sends_def filter_empty_conv)
  moreover have "outstanding_sends s \<le> 1" using assms(3) by (simp add: send_inv_def)
  ultimately show ?thesis
    using filter_remove_nth [OF assms(1), of is_post] assms(2)
    by (simp add: outstanding_sends_def settle_def)
qed

lemma settle_get:
  assumes "i < length (inflight s)" and "inflight s ! i = GetHistory c"
  shows "outstanding_sends (settle i s) = outstanding_sends s"
  using filter_remove_nth [OF assms(1), of is_post] assms(2)
  by (simp add: outstanding_sends_def settle_def)

lemma handler_inv:
  assumes "send_inv s"
  shows "send_inv (handler e s)"
proof (cases e)
  case (SelectConversation c)
  then show ?thesis using assms by (simp add: send_inv_def outstanding_sends_def setters)
next
  case (Change v)
  then show ?thesis using assms by (simp add: send_inv_def outstanding_sends_def)
next
  case (KeyDown k now)
  have "loading s \<longrightarrow> emitted (handleKeyDown (disabled_prop s) k (input s)) = []"
    by (simp add: handleKeyDown_emitted(2) loading_disabled)
  then have "send_inv (deliver now (handleKeyDown (disabled_prop s) k (input s)) s)"
    by (rule deliver_inv [OF assms _ handleKeyDown_emitted(1)])
  then show ?thesis using KeyDown by simp
next
  case (ClickSend now)
  have "loading s \<longrightarrow> emitted (handleSubmit (disabled_prop s) (input s)) = []"
    by (simp add: handleSubmit_emitted(2) loading_disabled)
  then have "send_inv (deliver now (handleSubmit (disabled_prop s) (input s)) s)"
    by (rule deliver_inv [OF assms _ handleSubmit_emitted(1)])
  then show ?thesis using ClickSend by simp
next
  case CompositionStart
  then show ?thesis using assms by (simp add: send_inv_def outstanding_sends_def)
next
  case CompositionEnd
  then show ?thesis using assms by (simp add: send_inv_def outstanding_sends_def)
next
  case (HistoryResolved i r)
  then show ?thesis using assms settle_get [of i s]
    by (auto simp add: send_inv_def fetchConversationHistory_resolved_def setMessages_def
          outstanding_sends_def settle_def split: request.splits)
next
  case (HistoryRejected i)
  then show ?thesis using assms settle_get [of i s]
    by (auto simp add: send_inv_def fetchConversationHistory_rejected_def setMessages_def
          console_error_def outstanding_sends_def settle_def split: request.splits)
next
  case (ChatResolved i r)
  then show ?thesis using assms settle_post [of i s]
    by (auto simp add: send_inv_def sendMessage_resolved_def Let_def setters
          outstanding_sends_def settle_def split: request.splits)
next
  case (ChatRejected i now)
  then show ?thesis using assms settle_post [of i s]
    by (auto simp add: send_inv_def sendMessage_rejected_def setters
          outstanding_sends_def settle_def split: request.splits)
qed

lemma step_inv: "send_inv s \<Longrightarrow> send_inv (step e s)"
  using handler_inv [of s e] by (simp add: step_def send_inv_def commit_keeps)

lemma mount_inv: "send_inv (mount uid)"
  by (simp add: mount_def send_inv_def useEffect_conversationId_def setMessages_def
        outstanding_sends_def)

lemma run_inv: "send_inv s \<Longrightarrow> send_inv (run evs s)"
  by (induction evs arbitrary: s) (simp_all add: run_def step_inv)













section \<open>Properties of the conversation controller\<close>

text \<open>
  Claim C3. For every send operation, the user's message is appended to the timeline
  synchronously, strictly before the remote send request is dispatched, and so before any
  settlement of that request can be observed. The calls of \<open>sendMessage\<close> up to its
  \<open>await\<close> are, in this order, the append of the user's message, \<open>setLoading(true)\<close> and
  the \<open>POST\<close>; the request is in flight only from then on. The objects of the source have
  no status field: the optimistic (pending) message is the one with the user's own
  identifier and text and no error flag.
\<close>

theorem sendMessage_order:
  assumes "trim messageText \<noteq> []"
  shows "effects (sendMessage now messageText s) =
           effects s @ [SetMessagesAppend (userMessage now messageText s), SetLoading True,
                        AxiosPost messageText (userId s) (currentConversationId s)] \<and>
         messages (sendMessage now messageText s) =
           messages s @ [userMessage now messageText s] \<and>
         inflight (sendMessage now messageText s) =
           inflight s @ [PostChat messageText (currentConversationId s)] \<and>
         m_message (userMessage now messageText s) = messageText \<and>
         m_user_id (userMessage now messageText s) = userId s \<and>
         \<not> m_isError (userMessage now messageText s)"
  using assms by (simp add: sendMessage_def userMessage_def setters)

theorem sendMessage_order_witness:
  "trim question \<noteq> [] \<and>
   effects (sendMessage (ascii ''t1'') question
              (run [SelectConversation convA, HistoryResolved 0 (Some [stored])] (mount user1))) =
     [SetMessages [], SetCurrentConversationId (Some convA), AxiosGet convA,
      SetMessages [stored],
      SetMessagesAppend
        \<lparr>m_message = question, m_timestamp = ascii ''t1'', m_user_id = user1,
         m_conversation_id = Some convA, m_agent_workflow = None,
         m_source_agent_response = None, m_isError = False\<rparr>,
      SetLoading True, AxiosPost question user1 (Some convA)]"
  using sendMessage_order [OF trim_question, of "ascii ''t1''"
      "run [SelectConversation convA, HistoryResolved 0 (Some [stored])] (mount user1)"]
  by (simp add: eval_simps)

text \<open>
  Claim C4. At most one send is outstanding at any time: whatever the events since
  mounting, at most one chat request is in flight. The composer-disable flag \<open>loading\<close> is
  set in the same synchronous step as the optimistic append, and in every state in which
  the composer is disabled, triggering a send by the explicit send action or by the
  keyboard produces zero emissions and dispatches nothing.
\<close>

theorem one_outstanding_send:
  "outstanding_sends (run evs (mount uid)) \<le> 1 \<and>
   (trim t \<noteq> [] \<longrightarrow>
      loading (sendMessage now t s) \<and>
      messages (sendMessage now t s) = messages s @ [userMessage now t s]) \<and>
   (disabled_prop s \<longrightarrow>
      emitted (handleSubmit (disabled_prop s) (input s)) = [] \<and>
      emitted (handleKeyDown (disabled_prop s) e (input s)) = [] \<and>
      inflight (step (ClickSend now) s) = inflight s \<and>
      inflight (step (KeyDown e now) s) = inflight s)"
proof -
  have "send_inv (run evs (mount uid))" using mount_inv by (rule run_inv)
  then have a: "outstanding_sends (run evs (mount uid)) \<le> 1" by (simp add: send_inv_def)
  have b: "trim t \<noteq> [] \<longrightarrow>
      loading (sendMessage now t s) \<and>
      messages (sendMessage now t s) = messages s @ [userMessage now t s]"
    by (simp add: sendMessage_def setters)
  have c: "disabled_prop s \<longrightarrow>
      emitted (handleSubmit (disabled_prop s) (input s)) = [] \<and>
      emitted (handleKeyDown (disabled_prop s) e (input s)) = [] \<and>
      inflight (step (ClickSend now) s) = inflight s \<and>
      inflight (step (KeyDown e now) s) = inflight s"
    by (simp add: handleSubmit_emitted(2) handleKeyDown_emitted(2) step_def commit_def
          deliver_def)
  from a b c show ?thesis by blast
qed

theorem one_outstanding_send_witness:
  "outstanding_sends
     (run [SelectConversation convA, Change question, KeyDown enterKey (ascii ''t1''),
           Change question, KeyDown enterKey (ascii ''t3''), ClickSend (ascii ''t3'')]
        (mount user1)) \<le> 1 \<and>
   trim question \<noteq> [] \<and>
   loading (sendMessage (ascii ''t3'') question
              (run [SelectConversation convA, Change question,
                    KeyDown enterKey (ascii ''t1''), Change question] (mount user1))) \<and>
   disabled_prop
     (run [SelectConversation convA, Change question, KeyDown enterKey (ascii ''t1''),
           Change question] (mount user1)) \<and>
   inflight
     (run [SelectConversation convA, Change question, KeyDown enterKey (ascii ''t1''),
           Change question] (mount user1)) =
     [GetHistory convA, PostChat question (Some convA)] \<and>
   inflight
     (step (KeyDown enterKey (ascii ''t3''))
        (run [SelectConversation convA, Change question, KeyDown enterKey (ascii ''t1''),
              Change question] (mount user1))) =
     [GetHistory convA, PostChat question (Some convA)] \<and>
   inflight
     (step (ClickSend (ascii ''t3''))
        (run [SelectConversation convA, Change question, KeyDown enterKey (ascii ''t1''),
              Change question] (mount user1))) =
     [GetHistory convA, PostChat question (Some convA)]"
  using one_outstanding_send
    [where evs = "[SelectConversation convA, Change question, KeyDown enterKey (ascii ''t1''),
                   Change question, KeyDown enterKey (ascii ''t3''), ClickSend (ascii ''t3'')]"
       and uid = user1 and t = question and now = "ascii ''t3''" and e = enterKey
       and s = "run [SelectConversation convA, Change question,
                     KeyDown enterKey (ascii ''t1''), Change question] (mount user1)"]
  by (simp add: eval_simps)

text \<open>
  Claim C5. For every send operation that fails (the request's promise rejects: network
  error, non-success status, timeout), exactly one message with the error flag and the
  fixed user-facing text is appended, after the optimistic user message; the failure path
  removes and alters nothing of the timeline, the optimistic user message included; and
  the composer returns to the enabled state (\<open>loading\<close> is cleared, so the composer of an
  active conversation is enabled).
\<close>

theorem send_failure:
  "messages (sendMessage_rejected now conv s) = messages s @ [errorMessage now conv] \<and>
   m_isError (errorMessage now conv) \<and>
   m_message (errorMessage now conv) =
     ascii ''Desculpe, ocorreu um erro ao processar sua mensagem. Tente novamente.'' \<and>
   \<not> loading (sendMessage_rejected now conv s) \<and>
   (truthy (currentConversationId s) \<longrightarrow>
      \<not> disabled_prop (sendMessage_rejected now conv s)) \<and>
   (i < length (inflight s) \<and> inflight s ! i = PostChat t conv \<longrightarrow>
      step (ChatRejected i now) s = sendMessage_rejected now conv (settle i s) \<and>
      messages (step (ChatRejected i now) s) = messages s @ [errorMessage now conv]) \<and>
   (trim t \<noteq> [] \<longrightarrow>
      messages (sendMessage_rejected now (currentConversationId s) (sendMessage sent t s)) =
        messages s @ [userMessage sent t s, errorMessage now (currentConversationId s)])"
  by (simp add: sendMessage_rejected_def sendMessage_def errorMessage_def disabled_prop_def
        step_def commit_def settle_def setters)

theorem send_failure_witness:
  "truthy (currentConversationId
            (run [SelectConversation convA, HistoryResolved 0 (Some [stored]),
                  Change question, KeyDown enterKey (ascii ''t1'')] (mount user1))) \<and>
   inflight (run [SelectConversation convA, HistoryResolved 0 (Some [stored]),
                  Change question, KeyDown enterKey (ascii ''t1'')] (mount user1)) =
     [PostChat question (Some convA)] \<and>
   trim question \<noteq> [] \<and>
   messages
     (step (ChatRejected 0 (ascii ''t2''))
        (run [SelectConversation convA, HistoryResolved 0 (Some [stored]),
              Change question, KeyDown enterKey (ascii ''t1'')] (mount user1))) =
     [stored,
      \<lparr>m_message = question, m_timestamp = ascii ''t1'', m_user_id = user1,
       m_conversation_id = Some convA, m_agent_workflow = None,
       m_source_agent_response = None, m_isError = False\<rparr>,
      errorMessage (ascii ''t2'') (Some convA)] \<and>
   \<not> disabled_prop
       (step (ChatRejected 0 (ascii ''t2''))
          (run [SelectConversation convA, HistoryResolved 0 (Some [stored]),
                Change question, KeyDown enterKey (ascii ''t1'')] (mount user1)))"
  using send_failure
    [where s = "run [SelectConversation convA, HistoryResolved 0 (Some [stored]),
                     Change question, KeyDown enterKey (ascii ''t1'')] (mount user1)"
       and i = 0 and t = question and conv = "Some convA" and now = "ascii ''t2''"
       and sent = "ascii ''t1''"]
  by (simp add: eval_simps)

text \<open>
  Claim C8. For every history fetch issued on a conversation-identifier change that
  fails, the timeline is populated as the empty sequence and no error message is appended
  or surfaced to the user (the failure path only calls \<open>console.error\<close> and
  \<open>setMessages([])\<close>); on success the timeline equals the server-returned message sequence
  in server-returned order (and is empty when the answer carries no sequence).
\<close>

theorem history_settlement:
  "messages (fetchConversationHistory_rejected s) = [] \<and>
   effects (fetchConversationHistory_rejected s) = effects s @ [ConsoleError, SetMessages []] \<and>
   messages (fetchConversationHistory_resolved (Some ms) s) = ms \<and>
   messages (fetchConversationHistory_resolved None s) = [] \<and>
   (i < length (inflight s) \<and> inflight s ! i = GetHistory c \<longrightarrow>
      messages (step (HistoryRejected i) s) = [] \<and>
      messages (step (HistoryResolved i (Some ms)) s) = ms)"
  by (simp add: fetchConversationHistory_rejected_def fetchConversationHistory_resolved_def
        step_def commit_def settle_def setters)

theorem history_settlement_witness:
  "inflight (run [SelectConversation convA] (mount user1)) = [GetHistory convA] \<and>
   messages (step (HistoryRejected 0) (run [SelectConversation convA] (mount user1))) = [] \<and>
   messages (step (HistoryResolved 0 (Some [stored, stored\<lparr>m_message := question\<rparr>]))
               (run [SelectConversation convA] (mount user1))) =
     [stored, stored\<lparr>m_message := question\<rparr>]"
  using history_settlement
    [where s = "run [SelectConversation convA] (mount user1)" and i = 0 and c = convA
       and ms = "[stored, stored\<lparr>m_message := question\<rparr>]"]
  by (simp add: eval_simps)





text \<open>
  Claim C2, as stated: a change of the active conversation identifier clears the timeline
  immediately, and the late resolution of a request started under the previous identifier
  never appends to the new timeline. Both fail. After \<open>conv-a\<close>'s history has loaded,
  selecting \<open>conv-b\<close> leaves \<open>conv-a\<close>'s stored message in the timeline; and a send started
  under \<open>conv-a\<close> that resolves after \<open>conv-b\<close> was selected and its (empty) history loaded
  appends its reply, marked \<open>conv-a\<close>, to \<open>conv-b\<close>'s timeline.
\<close>

theorem switch_counterexample:
  "currentConversationId
     (run [SelectConversation convA, HistoryResolved 0 (Some [stored]),
           SelectConversation convB] (mount user1)) = Some convB \<and>
   messages
     (run [SelectConversation convA, HistoryResolved 0 (Some [stored]),
           SelectConversation convB] (mount user1)) = [stored] \<and>
   currentConversationId
     (run [SelectConversation convA, HistoryResolved 0 (Some []), Change question,
           KeyDown enterKey (ascii ''t1''), SelectConversation convB,
           HistoryResolved 1 (Some []), ChatResolved 0 reply9] (mount user1)) = Some convB \<and>
   messages
     (run [SelectConversation convA, HistoryResolved 0 (Some []), Change question,
           KeyDown enterKey (ascii ''t1''), SelectConversation convB,
           HistoryResolved 1 (Some []), ChatResolved 0 reply9] (mount user1))
     = [botMessage (Some convA) reply9]"
  by (simp add: eval_simps)

text \<open>
  Claim C2, amended. A change of the active conversation identifier to a non-empty
  identifier issues exactly one history fetch, for the new identifier, and leaves the
  timeline as it is; the timeline is replaced when a history fetch settles (by the
  fetched sequence, or by the empty one on failure). A change to a null or empty
  identifier clears the timeline immediately and issues no fetch. The resolution of a send
  started under an earlier identifier is not discarded: its reply, or its error message,
  is appended to the timeline that is current when it arrives.
\<close>

theorem conversation_switch:
  "(c \<noteq> [] \<and> currentConversationId s \<noteq> Some c \<longrightarrow>
      messages (step (SelectConversation c) s) = messages s \<and>
      inflight (step (SelectConversation c) s) = inflight s @ [GetHistory c] \<and>
      effects (step (SelectConversation c) s) =
        effects s @ [SetCurrentConversationId (Some c), AxiosGet c]) \<and>
   (currentConversationId s \<noteq> Some [] \<longrightarrow>
      messages (step (SelectConversation []) s) = [] \<and>
      inflight (step (SelectConversation []) s) = inflight s) \<and>
   (currentConversationId s \<noteq> None \<longrightarrow>
      messages (commit s (onNewConversation newId s)) = [] \<and>
      inflight (commit s (onNewConversation newId s)) = inflight s) \<and>
   (j < length (inflight s) \<and> inflight s ! j = GetHistory h \<longrightarrow>
      messages (step (HistoryResolved j (Some ms)) s) = ms \<and>
      messages (step (HistoryRejected j) s) = []) \<and>
   (i < length (inflight s) \<and> inflight s ! i = PostChat t conv \<and> truthy conv \<longrightarrow>
      messages (step (ChatResolved i r) s) = messages s @ [botMessage conv r] \<and>
      messages (step (ChatRejected i now) s) = messages s @ [errorMessage now conv])"
  by (simp add: step_def commit_def settle_def useEffect_conversationId_def
        sendMessage_resolved_def sendMessage_rejected_def
        fetchConversationHistory_resolved_def fetchConversationHistory_rejected_def setters)

theorem conversation_switch_witness:
  "convB \<noteq> [] \<and>
   currentConversationId
     (run [SelectConversation convA, HistoryResolved 0 (Some [stored]), Change question,
           KeyDown enterKey (ascii ''t1'')] (mount user1)) = Some convA \<and>
   messages
     (step (SelectConversation convB)
        (run [SelectConversation convA, HistoryResolved 0 (Some [stored]), Change question,
              KeyDown enterKey (ascii ''t1'')] (mount user1))) =
     [stored, userMessage (ascii ''t1'') question
                (run [SelectConversation convA, HistoryResolved 0 (Some [stored])]
                   (mount user1))] \<and>
   inflight
     (step (SelectConversation convB)
        (run [SelectConversation convA, HistoryResolved 0 (Some [stored]), Change question,
              KeyDown enterKey (ascii ''t1'')] (mount user1))) =
     [PostChat question (Some convA), GetHistory convB] \<and>
   messages
     (step (SelectConversation [])
        (run [SelectConversation convA, HistoryResolved 0 (Some [stored]), Change question,
              KeyDown enterKey (ascii ''t1'')] (mount user1))) = [] \<and>
   messages
     (commit
        (run [SelectConversation convA, HistoryResolved 0 (Some [stored]), Change question,
              KeyDown enterKey (ascii ''t1'')] (mount user1))
        (onNewConversation (Some (ascii ''conv-9''))
           (run [SelectConversation convA, HistoryResolved 0 (Some [stored]), Change question,
                 KeyDown enterKey (ascii ''t1'')] (mount user1)))) = [] \<and>
   inflight
     (run [SelectConversation convA, HistoryResolved 0 (Some [stored]), Change question,
           KeyDown enterKey (ascii ''t1'')] (mount user1)) =
     [PostChat question (Some convA)] \<and>
   truthy (Some convA) \<and>
   messages
     (step (ChatResolved 0 reply9)
        (run [SelectConversation convA, HistoryResolved 0 (Some [stored]), Change question,
              KeyDown enterKey (ascii ''t1'')] (mount user1))) =
     [stored, userMessage (ascii ''t1'') question
                (run [SelectConversation convA, HistoryResolved 0 (Some [stored])]
                   (mount user1)),
      botMessage (Some convA) reply9] \<and>
   inflight
     (run [SelectConversation convA, HistoryResolved 0 (Some [stored]), Change question,
           KeyDown enterKey (ascii ''t1''), SelectConversation convB] (mount user1)) ! 1 =
     GetHistory convB \<and>
   messages
     (step (HistoryResolved 1 (Some []))
        (run [SelectConversation convA, HistoryResolved 0 (Some [stored]), Change question,
              KeyDown enterKey (ascii ''t1''), SelectConversation convB] (mount user1))) = []"
  using conversation_switch
    [where s = "run [SelectConversation convA, HistoryResolved 0 (Some [stored]),
                     Change question, KeyDown enterKey (ascii ''t1'')] (mount user1)"
       and c = convB and i = 0 and t = question and conv = "Some convA" and r = reply9
       and now = "ascii ''t2''" and newId = "Some (ascii ''conv-9'')" and j = 0
       and h = convA and ms = "[]"]
    conversation_switch
    [where s = "run [SelectConversation convA, HistoryResolved 0 (Some [stored]),
                     Change question, KeyDown enterKey (ascii ''t1''),
                     SelectConversation convB] (mount user1)"
       and j = 1 and h = convB and ms = "[]" and c = convA and i = 0 and t = question
       and conv = "Some convA" and r = reply9 and now = "ascii ''t2''"
       and newId = "Some (ascii ''conv-9'')"]
  by (simp add: eval_simps)

text \<open>
  Claim C9, as stated: each rendered step shows its decision label when the decision
  field is present. It fails for a decision that is present and empty: the step
  \<open>{agent: "RouterAgent", decision: ""}\<close> is rendered with its agent name and without a
  \<open>StepDecision\<close>.
\<close>

theorem empty_decision_counterexample:
  "decision \<lparr>agent = ascii ''RouterAgent'', decision = Some []\<rparr> = Some [] \<and>
   renderAgentWorkflow (Some [\<lparr>agent = ascii ''RouterAgent'', decision = Some []\<rparr>]) =
     Some (AgentWorkflow (ascii ''Fluxo de Processamento:'')
             [WorkflowStep 0 (ascii ''RouterAgent'') None])"
  by (simp add: renderAgentWorkflow_def render_step_def)

text \<open>
  Claim C9, amended. For every message carrying a non-empty workflow sequence, the
  rendering emits one step per element in the sequence's original order, each showing its
  agent name and, when the decision field is present and not empty, its decision label
  (after an arrow); for a message whose workflow sequence is absent or empty, nothing
  additional is rendered.
\<close>

theorem workflow_rendering:
  "(w \<noteq> [] \<longrightarrow>
      (\<exists>steps. renderAgentWorkflow (Some w) =
                  Some (AgentWorkflow (ascii ''Fluxo de Processamento:'') steps) \<and>
               length steps = length w \<and>
               (\<forall>i. i < length w \<longrightarrow>
                    stepAgent (steps ! i) = agent (w ! i) \<and>
                    stepDecision (steps ! i) =
                      (case decision (w ! i) of
                         None \<Rightarrow> None
                       | Some d \<Rightarrow> if d = [] then None else Some (arrow @ d))))) \<and>
   (m_agent_workflow m = Some w \<longrightarrow>
      v_workflow (render_entry uid m) = renderAgentWorkflow (Some w)) \<and>
   (m_agent_workflow m = None \<or> m_agent_workflow m = Some [] \<longrightarrow>
      v_workflow (render_entry uid m) = None)"
proof -
  have "\<forall>i. i < length w \<longrightarrow>
          stepAgent (map render_step (enumerate 0 w) ! i) = agent (w ! i) \<and>
          stepDecision (map render_step (enumerate 0 w) ! i) =
            (case decision (w ! i) of
               None \<Rightarrow> None
             | Some d \<Rightarrow> if d = [] then None else Some (arrow @ d))"
    by (simp add: render_step_def nth_enumerate_eq split: option.splits)
  then have a: "w \<noteq> [] \<longrightarrow>
      (\<exists>steps. renderAgentWorkflow (Some w) =
                  Some (AgentWorkflow (ascii ''Fluxo de Processamento:'') steps) \<and>
               length steps = length w \<and>
               (\<forall>i. i < length w \<longrightarrow>
                    stepAgent (steps ! i) = agent (w ! i) \<and>
                    stepDecision (steps ! i) =
                      (case decision (w ! i) of
                         None \<Rightarrow> None
                       | Some d \<Rightarrow> if d = [] then None else Some (arrow @ d))))"
    by (simp add: renderAgentWorkflow_def)
  have b: "m_agent_workflow m = Some w \<longrightarrow>
      v_workflow (render_entry uid m) = renderAgentWorkflow (Some w)"
    by (simp add: render_entry_def)
  have c: "m_agent_workflow m = None \<or> m_agent_workflow m = Some [] \<longrightarrow>
      v_workflow (render_entry uid m) = None"
    by (auto simp add: render_entry_def renderAgentWorkflow_def)
  from a b c show ?thesis by blast
qed

theorem workflow_rendering_witness:
  "[\<lparr>agent = ascii ''RouterAgent'', decision = Some (ascii ''KnowledgeAgent'')\<rparr>,
    \<lparr>agent = ascii ''KnowledgeAgent'', decision = None\<rparr>] \<noteq> [] \<and>
   v_workflow
     (render_entry user1
        (botMessage (Some convA)
           (reply9\<lparr>r_agent_workflow :=
                     Some [\<lparr>agent = ascii ''RouterAgent'',
                            decision = Some (ascii ''KnowledgeAgent'')\<rparr>,
                           \<lparr>agent = ascii ''KnowledgeAgent'', decision = None\<rparr>]\<rparr>))) =
     Some (AgentWorkflow (ascii ''Fluxo de Processamento:'')
             [WorkflowStep 0 (ascii ''RouterAgent'') (Some (arrow @ ascii ''KnowledgeAgent'')),
              WorkflowStep 1 (ascii ''KnowledgeAgent'') None]) \<and>
   v_workflow (render_entry user1 stored) = None"
  using workflow_rendering
    [where w = "[\<lparr>agent = ascii ''RouterAgent'', decision = Some (ascii ''KnowledgeAgent'')\<rparr>,
                 \<lparr>agent = ascii ''KnowledgeAgent'', decision = None\<rparr>]"
       and uid = user1
       and m = "botMessage (Some convA)
                  (reply9\<lparr>r_agent_workflow :=
                     Some [\<lparr>agent = ascii ''RouterAgent'',
                            decision = Some (ascii ''KnowledgeAgent'')\<rparr>,
                           \<lparr>agent = ascii ''KnowledgeAgent'', decision = None\<rparr>]\<rparr>)"]
    workflow_rendering [where m = stored and uid = user1 and w = "[]"]
  by (simp add: botMessage_def render_entry_def renderAgentWorkflow_def render_step_def
        ascii_def)

end
